theory Spec2Isabelle
  imports Main
begin

section \<open>Python values, exceptions and JSON\<close>

text \<open>
  The module \<^verbatim>\<open>query_client.py\<close> is a thin client of a REST API. Its functions pass
  Python values around; the ones that matter are modelled here. A format argument is
  a string or \<^verbatim>\<open>None\<close> (the platform handlers pass \<^verbatim>\<open>None\<close> on purpose); integers
  occur as HTTP status codes.
\<close>

datatype pyval = PNone | PStr string | PInt int

text \<open>
  The part of a \<^verbatim>\<open>requests.Response\<close> that the module reads: the attributes
  \<^verbatim>\<open>status_code\<close> and \<^verbatim>\<open>text\<close> (here \<open>resp_text\<close>, \<open>text\<close> being a keyword).
\<close>

record response =
  status_code :: int
  resp_text :: string

text \<open>
  Exceptions are values. \<^verbatim>\<open>HTTPError(*args, response=...)\<close> keeps its positional
  arguments and an optional response; \<^verbatim>\<open>KeyError\<close> keeps its argument,
  \<^verbatim>\<open>AttributeError\<close> the name of the missing attribute.
\<close>

datatype exn =
    HTTPError "pyval list" "response option"
  | KeyError string
  | AttributeError string
  | TypeError
  | IndexError
  | ValueError
  | OtherError string

text \<open>A decoded JSON document, as \<^verbatim>\<open>r.json()\<close> returns it.\<close>

datatype json =
    JNull
  | JBool bool
  | JNum int
  | JStr string
  | JArr "json list"
  | JObj "(string \<times> json) list"

type_synonym pydict = "string \<rightharpoonup> string"

text \<open>\<^verbatim>\<open>dict(pairs)\<close> stores the pairs in order, a later pair overriding an earlier one.\<close>

definition py_dict :: "(string \<times> string) list \<Rightarrow> pydict" where
  "py_dict ps = foldl (\<lambda>m (k, v). m(k \<mapsto> v)) Map.empty ps"

text \<open>\<^verbatim>\<open>xs[-1]\<close> raises \<^verbatim>\<open>IndexError\<close> on an empty sequence.\<close>

definition py_last :: "'a list \<Rightarrow> exn + 'a" where
  "py_last xs = (if xs = [] then Inl IndexError else Inr (last xs))"

text \<open>
  \<^verbatim>\<open>obj[key]\<close> with a string key: a dictionary is looked up (\<^verbatim>\<open>KeyError\<close> when the key
  is absent), every other JSON value raises \<^verbatim>\<open>TypeError\<close>.
\<close>

definition py_getitem :: "json \<Rightarrow> string \<Rightarrow> exn + json" where
  "py_getitem obj k =
     (case obj of
        JObj kvs \<Rightarrow> (case map_of kvs k of None \<Rightarrow> Inl (KeyError k) | Some v \<Rightarrow> Inr v)
      | _ \<Rightarrow> Inl TypeError)"

text \<open>
  \<^verbatim>\<open>for adv in obj\<close>: a list yields its elements, a dictionary its keys, a string its
  characters; \<^verbatim>\<open>None\<close>, booleans and numbers are not iterable.
\<close>

definition py_iter :: "json \<Rightarrow> exn + json list" where
  "py_iter obj =
     (case obj of
        JArr xs \<Rightarrow> Inr xs
      | JObj kvs \<Rightarrow> Inr (map (\<lambda>kv. JStr (fst kv)) kvs)
      | JStr s \<Rightarrow> Inr (map (\<lambda>c. JStr [c]) s)
      | _ \<Rightarrow> Inl TypeError)"

text \<open>A list comprehension whose element expression may raise: the first exception ends it.\<close>

fun comprehension :: "('a \<Rightarrow> exn + 'b) \<Rightarrow> 'a list \<Rightarrow> exn + 'b list" where
  "comprehension f [] = Inr []"
| "comprehension f (x # xs) =
     (case f x of
        Inl e \<Rightarrow> Inl e
      | Inr y \<Rightarrow> (case comprehension f xs of Inl e \<Rightarrow> Inl e | Inr ys \<Rightarrow> Inr (y # ys)))"

section \<open>Module constants and filters\<close>

definition TEMPORAL_FILTER_KEYS :: "string list" where
  "TEMPORAL_FILTER_KEYS = [''startDate'', ''endDate'']"

definition PUBLISHED_FIRST :: string where
  "PUBLISHED_FIRST = ''firstpublished''"

definition PUBLISHED_LAST :: string where
  "PUBLISHED_LAST = ''lastpublished''"

text \<open>
  \<^verbatim>\<open>ADV_TOKENS = constants.ADVISORY_FORMAT_TOKENS\<close> comes from a module that is not part
  of the sources at hand, so the token tuple is a parameter of everything that reads it.
  \<^verbatim>\<open>return adv_format if adv_format in ADV_TOKENS else ADV_TOKENS[-1]\<close>
  The tuple holds strings, and \<^verbatim>\<open>None\<close> or an integer equals no string, so the
  membership test is false for them.
\<close>

definition ensure_adv_format_token :: "string list \<Rightarrow> pyval \<Rightarrow> exn + string" where
  "ensure_adv_format_token ADV_TOKENS adv_format =
     (case adv_format of
        PStr s \<Rightarrow> (if s \<in> set ADV_TOKENS then Inr s else py_last ADV_TOKENS)
      | _ \<Rightarrow> py_last ADV_TOKENS)"

text \<open>
  \<^verbatim>\<open>Filter\<close> and \<^verbatim>\<open>TemporalFilter\<close> are duck-typed: both are objects with the attributes
  \<^verbatim>\<open>path\<close> and \<^verbatim>\<open>params\<close>, where \<^verbatim>\<open>params\<close> is a dictionary or \<^verbatim>\<open>None\<close>.
\<close>

record afilter =
  path :: string
  params :: "pydict option"

definition Filter :: "string \<Rightarrow> pydict option \<Rightarrow> afilter" where
  "Filter p ps = \<lparr>path = p, params = ps\<rparr>"

text \<open>\<^verbatim>\<open>Filter()\<close>, with the defaults \<^verbatim>\<open>path=''\<close> and \<^verbatim>\<open>params=None\<close>.\<close>

definition Filter_default :: afilter where
  "Filter_default = Filter [] None"

text \<open>\<^verbatim>\<open>TemporalFilter(path, *args)\<close>: \<^verbatim>\<open>zip\<close> stops at the shorter of its arguments.\<close>

definition TemporalFilter :: "string \<Rightarrow> string list \<Rightarrow> afilter" where
  "TemporalFilter p args = \<lparr>path = p, params = Some (py_dict (zip TEMPORAL_FILTER_KEYS args))\<rparr>"

definition FirstPublished :: "string list \<Rightarrow> afilter" where
  "FirstPublished args = TemporalFilter PUBLISHED_FIRST args"

definition LastUpdated :: "string list \<Rightarrow> afilter" where
  "LastUpdated args = TemporalFilter PUBLISHED_LAST args"

section \<open>The query client\<close>

text \<open>
  What lies outside the module is a parameter of the model: the token tuple
  \<^verbatim>\<open>constants.ADVISORY_FORMAT_TOKENS\<close>, the base address \<^verbatim>\<open>config.API_URL\<close>, the transport
  (\<^verbatim>\<open>requests.get\<close>, and the methods \<^verbatim>\<open>raise_for_status\<close> and \<^verbatim>\<open>json\<close> of the response
  it returns) and \<^verbatim>\<open>advisory.advisory_factory\<close>. Each of them may raise.
\<close>

record 'adv env =
  ADV_TOKENS :: "string list"
  API_URL :: string
  requests_get :: "string \<Rightarrow> pydict \<Rightarrow> pydict option \<Rightarrow> exn + response"
  raise_for_status :: "response \<Rightarrow> exn option"
  response_json :: "response \<Rightarrow> exn + json"
  advisory_factory :: "json \<Rightarrow> string \<Rightarrow> exn + 'adv"

text \<open>
  The client object after construction. The constructor obtains the token and the headers
  from the authorization collaborators; the logger is not modelled (the module sets the
  level to \<^verbatim>\<open>WARNING\<close> and logs at \<^verbatim>\<open>INFO\<close> only).
\<close>

record client =
  auth_token :: string
  headers :: pydict

text \<open>
  The effect of the module on the world is the sequence of calls of \<^verbatim>\<open>requests.get\<close>.
  Every operation takes the calls made so far and returns them extended.
\<close>

record request =
  req_url :: string
  req_headers :: pydict
  req_params :: "pydict option"

definition get_request ::
  "'adv env \<Rightarrow> client \<Rightarrow> string \<Rightarrow> pydict option \<Rightarrow> request list \<Rightarrow> (exn + json) \<times> request list"
where
  "get_request env self req_path ps sent =
     (let url = API_URL env @ ''/'' @ req_path;
          sent' = sent @ [\<lparr>req_url = url, req_headers = headers self, req_params = ps\<rparr>]
      in case requests_get env url (headers self) ps of
           Inl e \<Rightarrow> (Inl e, sent')
         | Inr r \<Rightarrow>
             (case raise_for_status env r of
                Some e \<Rightarrow> (Inl e, sent')
              | None \<Rightarrow> (response_json env r, sent')))"

definition advisory_list :: "'adv env \<Rightarrow> json \<Rightarrow> pyval \<Rightarrow> exn + 'adv list" where
  "advisory_list env advisories adv_format =
     (case ensure_adv_format_token (ADV_TOKENS env) adv_format of
        Inl e \<Rightarrow> Inl e
      | Inr tok \<Rightarrow>
          (case py_iter advisories of
             Inl e \<Rightarrow> Inl e
           | Inr advs \<Rightarrow> comprehension (\<lambda>adv. advisory_factory env adv tok) advs))"

text \<open>
  The line that ends seven of the handlers,
  \<^verbatim>\<open>return self.advisory_list(advisories['advisories'], adv_format)\<close>,
  applied to the outcome of the request.
\<close>

definition advisories_of :: "'adv env \<Rightarrow> exn + json \<Rightarrow> pyval \<Rightarrow> exn + 'adv list" where
  "advisories_of env res adv_format =
     (case res of
        Inl e \<Rightarrow> Inl e
      | Inr advisories \<Rightarrow>
          (case py_getitem advisories ''advisories'' of
             Inl e \<Rightarrow> Inl e
           | Inr advs \<Rightarrow> advisory_list env advs adv_format))"

type_synonym 'adv handler =
  "pyval \<Rightarrow> string \<Rightarrow> afilter option \<Rightarrow> request list \<Rightarrow> (exn + 'adv list) \<times> request list"

text \<open>
  The handlers. The argument \<open>a_filter\<close> is \<open>None\<close> for Python's \<^verbatim>\<open>None\<close>. The entries of
  \<^verbatim>\<open>req_cfg\<close> are evaluated in the order written, so an unusable token tuple is met before
  a missing attribute. Reading an attribute of \<^verbatim>\<open>None\<close> raises \<^verbatim>\<open>AttributeError\<close>.
\<close>

definition get_by_all :: "'adv env \<Rightarrow> client \<Rightarrow> 'adv handler" where
  "get_by_all env self adv_format all_adv a_filter sent =
     (case ensure_adv_format_token (ADV_TOKENS env) adv_format of
        Inl e \<Rightarrow> (Inl e, sent)
      | Inr tok \<Rightarrow>
          (case a_filter of
             None \<Rightarrow> (Inl (AttributeError ''path''), sent)
           | Some f \<Rightarrow>
               (let req_path = tok @ ''/'' @ all_adv @ ''/'' @ path f;
                    (advisories, sent') = get_request env self req_path (params f) sent
                in (advisories_of env advisories adv_format, sent'))))"

definition get_by_cve :: "'adv env \<Rightarrow> client \<Rightarrow> 'adv handler" where
  "get_by_cve env self adv_format cve a_filter sent =
     (case ensure_adv_format_token (ADV_TOKENS env) adv_format of
        Inl e \<Rightarrow> (Inl e, sent)
      | Inr tok \<Rightarrow>
          (let req_path = tok @ ''/cve/'' @ cve;
               (advisories, sent') = get_request env self req_path None sent
           in (advisories_of env advisories adv_format, sent')))"

text \<open>
  \<^verbatim>\<open>advisories = {'advisories': [self.get_request(req_path)]}\<close>: the decoded response
  becomes the only element of a fresh list.
\<close>

definition get_by_advisory :: "'adv env \<Rightarrow> client \<Rightarrow> 'adv handler" where
  "get_by_advisory env self adv_format an_advisory a_filter sent =
     (case ensure_adv_format_token (ADV_TOKENS env) adv_format of
        Inl e \<Rightarrow> (Inl e, sent)
      | Inr tok \<Rightarrow>
          (let req_path = tok @ ''/advisory/'' @ an_advisory;
               (res, sent') = get_request env self req_path None sent
           in case res of
                Inl e \<Rightarrow> (Inl e, sent')
              | Inr j \<Rightarrow>
                  (advisories_of env (Inr (JObj [(''advisories'', JArr [j])])) adv_format,
                   sent')))"

text \<open>
  \<^verbatim>\<open>'filter': Filter().path if a_filter is None else a_filter.path\<close> guards the path, but
  the call \<^verbatim>\<open>self.get_request(req_path, params=a_filter.params)\<close> reads
  \<^verbatim>\<open>a_filter.params\<close> unguarded, before the request is made.
\<close>

definition get_by_severity :: "'adv env \<Rightarrow> client \<Rightarrow> 'adv handler" where
  "get_by_severity env self adv_format severity a_filter sent =
     (case ensure_adv_format_token (ADV_TOKENS env) adv_format of
        Inl e \<Rightarrow> (Inl e, sent)
      | Inr tok \<Rightarrow>
          (let filter_path = (case a_filter of None \<Rightarrow> path Filter_default | Some f \<Rightarrow> path f);
               req_path = tok @ ''/severity/'' @ severity @ ''/'' @ filter_path
           in case a_filter of
                None \<Rightarrow> (Inl (AttributeError ''params''), sent)
              | Some f \<Rightarrow>
                  (let (advisories, sent') = get_request env self req_path (params f) sent
                   in (advisories_of env advisories adv_format, sent'))))"

definition get_by_year :: "'adv env \<Rightarrow> client \<Rightarrow> 'adv handler" where
  "get_by_year env self adv_format year a_filter sent =
     (case ensure_adv_format_token (ADV_TOKENS env) adv_format of
        Inl e \<Rightarrow> (Inl e, sent)
      | Inr tok \<Rightarrow>
          (let req_path = tok @ ''/year/'' @ year;
               (advisories, sent') = get_request env self req_path None sent
           in (advisories_of env advisories adv_format, sent')))"

definition get_by_latest :: "'adv env \<Rightarrow> client \<Rightarrow> 'adv handler" where
  "get_by_latest env self adv_format latest a_filter sent =
     (case ensure_adv_format_token (ADV_TOKENS env) adv_format of
        Inl e \<Rightarrow> (Inl e, sent)
      | Inr tok \<Rightarrow>
          (let req_path = tok @ ''/latest/'' @ latest;
               (advisories, sent') = get_request env self req_path None sent
           in (advisories_of env advisories adv_format, sent')))"

definition get_by_product :: "'adv env \<Rightarrow> client \<Rightarrow> 'adv handler" where
  "get_by_product env self adv_format product_name a_filter sent =
     (case ensure_adv_format_token (ADV_TOKENS env) adv_format of
        Inl e \<Rightarrow> (Inl e, sent)
      | Inr tok \<Rightarrow>
          (let req_path = tok @ ''/product'';
               (advisories, sent') =
                 get_request env self req_path (Some [''product'' \<mapsto> product_name]) sent
           in (advisories_of env advisories adv_format, sent')))"

text \<open>
  The clause
  \<^verbatim>\<open>except requests.exceptions.HTTPError as e: raise requests.exceptions.HTTPError(e.response.status_code, e.response.text)\<close>
  applied to the outcome of the \<^verbatim>\<open>try\<close> body: an \<^verbatim>\<open>HTTPError\<close> is replaced by a new one
  whose positional arguments are the status code and the body text of the response (the
  new one is given no response); one without a response fails at \<^verbatim>\<open>e.response.status_code\<close>.
  Every other outcome passes through.
\<close>

definition reraise_http :: "exn + 'a \<Rightarrow> exn + 'a" where
  "reraise_http outcome =
     (case outcome of
        Inl (HTTPError args resp) \<Rightarrow>
          (case resp of
             None \<Rightarrow> Inl (AttributeError ''status_code'')
           | Some r \<Rightarrow> Inl (HTTPError [PInt (status_code r), PStr (resp_text r)] None))
      | _ \<Rightarrow> outcome)"

definition get_by_ios_xe :: "'adv env \<Rightarrow> client \<Rightarrow> 'adv handler" where
  "get_by_ios_xe env self adv_format ios_version a_filter sent =
     (let req_path = ''iosxe'';
          (advisories, sent') =
            get_request env self req_path (Some [''version'' \<mapsto> ios_version]) sent
      in (reraise_http (advisories_of env advisories PNone), sent'))"

definition get_by_ios :: "'adv env \<Rightarrow> client \<Rightarrow> 'adv handler" where
  "get_by_ios env self adv_format ios_version a_filter sent =
     (let req_path = ''ios'';
          (advisories, sent') =
            get_request env self req_path (Some [''version'' \<mapsto> ios_version]) sent
      in (reraise_http (advisories_of env advisories PNone), sent'))"

text \<open>
  \<^verbatim>\<open>get_by(topic, format, aspect, **kwargs)\<close>. The keyword arguments are a list of names
  with values. Every handler accepts the keyword \<^verbatim>\<open>a_filter\<close> and no other; it is
  optional (default \<^verbatim>\<open>None\<close>) except for \<^verbatim>\<open>get_by_all\<close>, which requires it. A call that
  does not fit the signature raises \<^verbatim>\<open>TypeError\<close> before the handler's body runs.
\<close>

type_synonym kwargs = "(string \<times> afilter option) list"

definition bind_a_filter :: "bool \<Rightarrow> kwargs \<Rightarrow> exn + afilter option" where
  "bind_a_filter required kw =
     (if list_all (\<lambda>k. k = ''a_filter'') (map fst kw)
      then (case map_of kw ''a_filter'' of
              None \<Rightarrow> (if required then Inl TypeError else Inr None)
            | Some v \<Rightarrow> Inr v)
      else Inl TypeError)"

text \<open>The dispatch table; the flag says whether the handler requires \<^verbatim>\<open>a_filter\<close>.\<close>

definition trampoline :: "'adv env \<Rightarrow> client \<Rightarrow> (string \<times> bool \<times> 'adv handler) list" where
  "trampoline env self =
     [(''all'', True, get_by_all env self),
      (''cve'', False, get_by_cve env self),
      (''advisory'', False, get_by_advisory env self),
      (''severity'', False, get_by_severity env self),
      (''year'', False, get_by_year env self),
      (''latest'', False, get_by_latest env self),
      (''product'', False, get_by_product env self),
      (''ios_xe'', False, get_by_ios_xe env self),
      (''ios'', False, get_by_ios env self)]"

definition not_supported :: "string \<Rightarrow> string" where
  "not_supported topic =
     ''REST API 'topic' ('' @ topic @ '') not (yet) supported.''"

definition get_by ::
  "'adv env \<Rightarrow> client \<Rightarrow> string \<Rightarrow> pyval \<Rightarrow> string \<Rightarrow> kwargs \<Rightarrow> request list
     \<Rightarrow> (exn + 'adv list) \<times> request list"
where
  "get_by env self topic format aspect kw sent =
     (case map_of (trampoline env self) topic of
        None \<Rightarrow> (Inl (KeyError (not_supported topic)), sent)
      | Some (required, handler) \<Rightarrow>
          (case bind_a_filter required kw of
             Inl e \<Rightarrow> (Inl e, sent)
           | Inr a_filter \<Rightarrow> handler format aspect a_filter sent))"

section \<open>A sample deployment\<close>

text \<open>
  A concrete environment on which the model can be run: the token tuple named in the
  docstring of \<^verbatim>\<open>ensure_adv_format_token\<close> (\<^verbatim>\<open>cvrf\<close>, \<^verbatim>\<open>oval\<close>, \<^verbatim>\<open>ios\<close>), a server that
  answers 404 to the version \<^verbatim>\<open>0.0\<close> and 200 with two advisories to everything else, a
  response check that raises for the status codes 400 to 599, and a factory that pairs the
  raw entry with the format token.
\<close>

definition sample_response_json :: json where
  "sample_response_json =
     JObj [(''advisories'',
            JArr [JObj [(''advisoryId'', JStr ''cisco-sa-1'')],
                  JObj [(''advisoryId'', JStr ''cisco-sa-2'')]])]"

definition sample_env :: "(json \<times> string) env" where
  "sample_env =
     \<lparr>ADV_TOKENS = [''cvrf'', ''oval'', ''ios''],
      API_URL = ''https://api.example.com/security/advisories'',
      requests_get = (\<lambda>url hdrs ps.
         case ps of
           None \<Rightarrow> Inr \<lparr>status_code = 200, resp_text = ''ok''\<rparr>
         | Some d \<Rightarrow>
             (if d ''version'' = Some ''0.0'' then Inr \<lparr>status_code = 404, resp_text = ''Not Found''\<rparr>
              else Inr \<lparr>status_code = 200, resp_text = ''ok''\<rparr>)),
      raise_for_status = (\<lambda>r.
         if 400 \<le> status_code r \<and> status_code r < 600
         then Some (HTTPError [PStr ''Client Error''] (Some r)) else None),
      response_json = (\<lambda>r. Inr sample_response_json),
      advisory_factory = (\<lambda>adv tok. Inr (adv, tok))\<rparr>"

definition sample_client :: client where
  "sample_client = \<lparr>auth_token = ''t0k3n'', headers = [''Authorization'' \<mapsto> ''Bearer t0k3n'']\<rparr>"

text \<open>
  The same deployment with a server whose decoded response is itself a list, not a
  dictionary.
\<close>

definition sample_list_json :: json where
  "sample_list_json =
     JArr [JObj [(''advisoryId'', JStr ''cisco-sa-1'')],
           JObj [(''advisoryId'', JStr ''cisco-sa-2'')]]"

definition sample_list_env :: "(json \<times> string) env" where
  "sample_list_env = sample_env\<lparr>response_json := (\<lambda>r. Inr sample_list_json)\<rparr>"

section \<open>Format tokens\<close>

text \<open>
  C1. For every input string, \<^verbatim>\<open>ensure_adv_format_token\<close> returns the input unchanged
  when it is a member of the advisory-format token tuple and the last entry of the tuple
  otherwise; it returns a value (\<open>Inr\<close>) in both cases, so it never raises. The tuple is
  the external constant, taken as a parameter; that it has a last entry is the hypothesis.
\<close>

theorem ensure_adv_format_token_total:
  assumes "tokens \<noteq> []"
  shows "ensure_adv_format_token tokens (PStr s) =
           Inr (if s \<in> set tokens then s else last tokens)"
  using assms by (simp add: ensure_adv_format_token_def py_last_def)

theorem ensure_adv_format_token_total_witness:
  "[''cvrf'', ''oval'', ''ios''] \<noteq> []
   \<and> ensure_adv_format_token [''cvrf'', ''oval'', ''ios''] (PStr ''oval'') = Inr ''oval''
   \<and> ensure_adv_format_token [''cvrf'', ''oval'', ''ios''] (PStr ''ovla'') = Inr ''ios''"
  using ensure_adv_format_token_total [of "[''cvrf'', ''oval'', ''ios'']" "''oval''"]
        ensure_adv_format_token_total [of "[''cvrf'', ''oval'', ''ios'']" "''ovla''"]
  by simp

section \<open>Temporal filters\<close>

lemma py_dict_zip_keys_nil: "py_dict (zip TEMPORAL_FILTER_KEYS []) = Map.empty"
  by (simp add: py_dict_def)

lemma py_dict_zip_keys_one:
  "py_dict (zip TEMPORAL_FILTER_KEYS [a]) = [''startDate'' \<mapsto> a]"
  by (simp add: py_dict_def TEMPORAL_FILTER_KEYS_def)

lemma py_dict_zip_keys_more:
  "py_dict (zip TEMPORAL_FILTER_KEYS (a # b # rest)) = [''startDate'' \<mapsto> a, ''endDate'' \<mapsto> b]"
  by (simp add: py_dict_def TEMPORAL_FILTER_KEYS_def)

text \<open>
  C6. \<^verbatim>\<open>FirstPublished("2020-01-01", "2020-02-01")\<close> is a filter whose path is
  \<^verbatim>\<open>firstpublished\<close> and whose params map \<^verbatim>\<open>startDate\<close> to the first date and
  \<^verbatim>\<open>endDate\<close> to the second, and nothing else.
\<close>

theorem FirstPublished_two_dates:
  "FirstPublished [''2020-01-01'', ''2020-02-01''] =
     \<lparr>path = ''firstpublished'',
      params = Some [''startDate'' \<mapsto> ''2020-01-01'', ''endDate'' \<mapsto> ''2020-02-01'']\<rparr>"
  by (simp add: FirstPublished_def TemporalFilter_def PUBLISHED_FIRST_def
      py_dict_zip_keys_more)

text \<open>
  C10. A \<^verbatim>\<open>TemporalFilter\<close> (and so \<^verbatim>\<open>FirstPublished\<close> and \<^verbatim>\<open>LastUpdated\<close>) accepts any
  number of date arguments: with none the params are empty, with one they hold only
  \<^verbatim>\<open>startDate\<close>, and arguments beyond the second are dropped. The constructor is a total
  function returning a filter, so no argument count raises.
\<close>

theorem TemporalFilter_any_arity:
  "TemporalFilter p [] = \<lparr>path = p, params = Some Map.empty\<rparr>
   \<and> TemporalFilter p [a] = \<lparr>path = p, params = Some [''startDate'' \<mapsto> a]\<rparr>
   \<and> dom (the (params (TemporalFilter p [a]))) = {''startDate''}
   \<and> TemporalFilter p (a # b # rest) = TemporalFilter p [a, b]
   \<and> TemporalFilter p [a, b] = \<lparr>path = p, params = Some [''startDate'' \<mapsto> a, ''endDate'' \<mapsto> b]\<rparr>
   \<and> FirstPublished args = TemporalFilter ''firstpublished'' args
   \<and> LastUpdated args = TemporalFilter ''lastpublished'' args"
  by (simp add: TemporalFilter_def FirstPublished_def LastUpdated_def PUBLISHED_FIRST_def
      PUBLISHED_LAST_def py_dict_def TEMPORAL_FILTER_KEYS_def)

section \<open>Requests and dispatch\<close>

lemma ensure_adv_format_token_cases:
  "ensure_adv_format_token tokens fmt =
     (if tokens = [] then Inl IndexError
      else Inr (case fmt of PStr s \<Rightarrow> (if s \<in> set tokens then s else last tokens) | _ \<Rightarrow> last tokens))"
  by (cases fmt) (auto simp: ensure_adv_format_token_def py_last_def)

lemma ensure_adv_format_token_member:
  "s \<in> set tokens \<Longrightarrow> ensure_adv_format_token tokens (PStr s) = Inr s"
  by (simp add: ensure_adv_format_token_def)

lemma ensure_adv_format_token_None:
  "ensure_adv_format_token tokens PNone = py_last tokens"
  by (simp add: ensure_adv_format_token_def)

lemma get_request_sent:
  "snd (get_request env self p ps sent) =
     sent @ [\<lparr>req_url = API_URL env @ ''/'' @ p, req_headers = headers self, req_params = ps\<rparr>]"
  by (simp add: get_request_def Let_def split: sum.splits option.splits)

lemma map_of_trampoline_None:
  "map_of (trampoline env self) topic = None \<longleftrightarrow>
     topic \<notin> {''all'', ''cve'', ''advisory'', ''severity'', ''year'', ''latest'', ''product'',
               ''ios_xe'', ''ios''}"
  by (simp add: trampoline_def)

lemma map_of_trampoline_cve:
  "map_of (trampoline env self) ''cve'' = Some (False, get_by_cve env self)"
  by (simp add: trampoline_def)

lemma map_of_trampoline_severity:
  "map_of (trampoline env self) ''severity'' = Some (False, get_by_severity env self)"
  by (simp add: trampoline_def)

lemma bind_a_filter_nil: "bind_a_filter False [] = Inr None"
  by (simp add: bind_a_filter_def)

text \<open>
  C2. The claim: \<^verbatim>\<open>get_by("severity", "oval", "high")\<close> without a filter builds the path
  \<^verbatim>\<open>oval/severity/high/\<close> and issues the request with it. The code builds the path but
  then reads \<^verbatim>\<open>a_filter.params\<close> of \<^verbatim>\<open>None\<close>: for every format and severity the call
  raises and no request is issued (with an empty token tuple it raises even earlier).
\<close>

theorem get_by_severity_without_filter_raises:
  "get_by env self ''severity'' format severity [] sent =
     (Inl (if ADV_TOKENS env = [] then IndexError else AttributeError ''params''), sent)"
  by (simp add: get_by_def map_of_trampoline_severity bind_a_filter_nil get_by_severity_def
      ensure_adv_format_token_cases)

text \<open>
  With an explicit \<^verbatim>\<open>Filter()\<close> the same call does send the request, to the path
  \<^verbatim>\<open>oval/severity/high/\<close> and with \<^verbatim>\<open>params=None\<close>: the path is built as intended, and
  only the missing filter is not handled.
\<close>

lemma get_by_severity_default_filter_request:
  assumes "''oval'' \<in> set (ADV_TOKENS env)"
  shows "snd (get_by env self ''severity'' (PStr ''oval'') ''high''
                [(''a_filter'', Some Filter_default)] sent) =
           sent @ [\<lparr>req_url = API_URL env @ ''/oval/severity/high/'',
                    req_headers = headers self, req_params = None\<rparr>]"
proof -
  have tok: "ensure_adv_format_token (ADV_TOKENS env) (PStr ''oval'') = Inr ''oval''"
    using assms by (rule ensure_adv_format_token_member)
  have bound: "bind_a_filter False [(''a_filter'', Some Filter_default)] = Inr (Some Filter_default)"
    by (simp add: bind_a_filter_def)
  have "get_by env self ''severity'' (PStr ''oval'') ''high''
          [(''a_filter'', Some Filter_default)] sent =
        get_by_severity env self (PStr ''oval'') ''high'' (Some Filter_default) sent"
    by (simp add: get_by_def map_of_trampoline_severity bound)
  then show ?thesis
    by (simp add: get_by_severity_def tok Let_def case_prod_beta get_request_sent
        Filter_default_def Filter_def)
qed

text \<open>
  C8. \<^verbatim>\<open>get_by("cve", "cvrf", "CVE-2015-1234")\<close> passes the path
  \<^verbatim>\<open>cvrf/cve/CVE-2015-1234\<close> and no parameters to \<^verbatim>\<open>get_request\<close>, and the GET that is
  sent carries no query parameters. That \<^verbatim>\<open>cvrf\<close> is one of the format tokens is the
  hypothesis, the tuple being an external constant.
\<close>

theorem get_by_cve_request:
  assumes "''cvrf'' \<in> set (ADV_TOKENS env)"
  shows "get_by env self ''cve'' (PStr ''cvrf'') ''CVE-2015-1234'' [] sent =
           (advisories_of env (fst (get_request env self ''cvrf/cve/CVE-2015-1234'' None sent))
              (PStr ''cvrf''),
            sent @ [\<lparr>req_url = API_URL env @ ''/cvrf/cve/CVE-2015-1234'',
                     req_headers = headers self, req_params = None\<rparr>])"
proof -
  have tok: "ensure_adv_format_token (ADV_TOKENS env) (PStr ''cvrf'') = Inr ''cvrf''"
    using assms by (rule ensure_adv_format_token_member)
  have "get_by env self ''cve'' (PStr ''cvrf'') ''CVE-2015-1234'' [] sent =
          get_by_cve env self (PStr ''cvrf'') ''CVE-2015-1234'' None sent"
    by (simp add: get_by_def map_of_trampoline_cve bind_a_filter_nil)
  also have "\<dots> =
      (advisories_of env (fst (get_request env self ''cvrf/cve/CVE-2015-1234'' None sent))
         (PStr ''cvrf''),
       snd (get_request env self ''cvrf/cve/CVE-2015-1234'' None sent))"
    by (simp add: get_by_cve_def tok case_prod_beta Let_def)
  finally show ?thesis
    by (simp add: get_request_sent)
qed

theorem get_by_cve_request_witness:
  "''cvrf'' \<in> set (ADV_TOKENS sample_env)
   \<and> snd (get_by sample_env sample_client ''cve'' (PStr ''cvrf'') ''CVE-2015-1234'' [] []) =
       [\<lparr>req_url = ''https://api.example.com/security/advisories/cvrf/cve/CVE-2015-1234'',
         req_headers = [''Authorization'' \<mapsto> ''Bearer t0k3n''], req_params = None\<rparr>]"
proof -
  have h: "''cvrf'' \<in> set (ADV_TOKENS sample_env)"
    by (simp add: sample_env_def)
  show ?thesis
    using h get_by_cve_request [OF h, of sample_client "[]"]
    by (simp add: sample_env_def sample_client_def)
qed

text \<open>
  C5. For every topic that is not one of the nine supported ones, \<^verbatim>\<open>get_by\<close> raises a
  \<^verbatim>\<open>KeyError\<close> whose message contains the topic, whatever the other arguments are; the
  calls made so far are unchanged, so no handler has run.
\<close>

theorem get_by_unsupported_topic:
  assumes "topic \<notin> {''all'', ''cve'', ''advisory'', ''severity'', ''year'', ''latest'',
                     ''product'', ''ios_xe'', ''ios''}"
  shows "get_by env self topic format aspect kw sent =
           (Inl (KeyError (''REST API 'topic' ('' @ topic @ '') not (yet) supported.'')), sent)"
proof -
  have "map_of (trampoline env self) topic = None"
    using assms by (simp add: map_of_trampoline_None)
  then show ?thesis
    by (simp add: get_by_def not_supported_def)
qed

theorem get_by_unsupported_topic_witness:
  "''bogus'' \<notin> {''all'', ''cve'', ''advisory'', ''severity'', ''year'', ''latest'',
                  ''product'', ''ios_xe'', ''ios''}
   \<and> get_by sample_env sample_client ''bogus'' (PStr ''cvrf'') ''x'' [] [] =
       (Inl (KeyError ''REST API 'topic' (bogus) not (yet) supported.''), [])"
proof -
  have h: "''bogus'' \<notin> {''all'', ''cve'', ''advisory'', ''severity'', ''year'', ''latest'',
                  ''product'', ''ios_xe'', ''ios''}"
    by simp
  show ?thesis
    using h get_by_unsupported_topic [OF h, of sample_env sample_client "PStr ''cvrf''" "''x''" "[]" "[]"]
    by simp
qed

section \<open>Building the advisory list\<close>

text \<open>
  A comprehension returns exactly when every element expression returns, and then the
  results stand in the order of the inputs.
\<close>

lemma comprehension_Inr_iff:
  "comprehension f xs = Inr ys \<longleftrightarrow> list_all2 (\<lambda>x y. f x = Inr y) xs ys"
proof (induction xs arbitrary: ys)
  case Nil
  show ?case by auto
next
  case (Cons x xs)
  show ?case
    by (cases ys) (auto simp: Cons.IH [symmetric] split: sum.splits)
qed

lemma comprehension_total:
  "(\<And>x. x \<in> set xs \<Longrightarrow> \<exists>y. f x = Inr y) \<Longrightarrow> \<exists>ys. comprehension f xs = Inr ys"
proof (induction xs)
  case Nil
  show ?case by simp
next
  case (Cons x xs)
  obtain y where y: "f x = Inr y"
    using Cons.prems [of x] by auto
  obtain ys where ys: "comprehension f xs = Inr ys"
    using Cons.IH Cons.prems by auto
  show ?case by (simp add: y ys)
qed

text \<open>
  C9. For every list of raw entries and every format, \<^verbatim>\<open>advisory_list\<close> returns a list
  of the same length whose i-th element is the object the factory builds from the i-th
  entry and the normalised format token. The factory is external and may raise; that it
  builds an object for each entry, and that the token tuple yields a token, are the
  hypotheses.
\<close>

theorem advisory_list_one_per_entry:
  assumes tok: "ensure_adv_format_token (ADV_TOKENS env) adv_format = Inr tok"
    and built: "\<forall>adv \<in> set advisories. \<exists>a. advisory_factory env adv tok = Inr a"
  shows "\<exists>advs. advisory_list env (JArr advisories) adv_format = Inr advs
           \<and> length advs = length advisories
           \<and> (\<forall>i < length advisories. advisory_factory env (advisories ! i) tok = Inr (advs ! i))"
proof -
  obtain advs where advs: "comprehension (\<lambda>adv. advisory_factory env adv tok) advisories = Inr advs"
    using comprehension_total [of advisories "\<lambda>adv. advisory_factory env adv tok"] built by blast
  have run: "advisory_list env (JArr advisories) adv_format = Inr advs"
    by (simp add: advisory_list_def tok py_iter_def advs)
  have "list_all2 (\<lambda>adv a. advisory_factory env adv tok = Inr a) advisories advs"
    using advs by (simp add: comprehension_Inr_iff)
  then have "length advs = length advisories"
    and "\<forall>i < length advisories. advisory_factory env (advisories ! i) tok = Inr (advs ! i)"
    by (simp_all add: list_all2_conv_all_nth)
  with run show ?thesis by blast
qed

theorem advisory_list_one_per_entry_witness:
  "ensure_adv_format_token (ADV_TOKENS sample_env) (PStr ''ovla'') = Inr ''ios''
   \<and> advisory_list sample_env (JArr [JStr ''a'', JNull, JStr ''c'']) (PStr ''ovla'') =
       Inr [(JStr ''a'', ''ios''), (JNull, ''ios''), (JStr ''c'', ''ios'')]"
proof -
  have h1: "ensure_adv_format_token (ADV_TOKENS sample_env) (PStr ''ovla'') = Inr ''ios''"
    by (simp add: sample_env_def ensure_adv_format_token_def py_last_def)
  have h2: "\<forall>adv \<in> set [JStr ''a'', JNull, JStr ''c''].
              \<exists>a. advisory_factory sample_env adv ''ios'' = Inr a"
    by (simp add: sample_env_def)
  obtain advs where run: "advisory_list sample_env (JArr [JStr ''a'', JNull, JStr ''c'']) (PStr ''ovla'') = Inr advs"
    and len: "length advs = length [JStr ''a'', JNull, JStr ''c'']"
    and nth: "\<forall>i < length [JStr ''a'', JNull, JStr ''c''].
                advisory_factory sample_env ([JStr ''a'', JNull, JStr ''c''] ! i) ''ios'' = Inr (advs ! i)"
    using advisory_list_one_per_entry [OF h1 h2] by blast
  have "advisory_factory sample_env ([JStr ''a'', JNull, JStr ''c''] ! 0) ''ios'' = Inr (advs ! 0)"
    and "advisory_factory sample_env ([JStr ''a'', JNull, JStr ''c''] ! 1) ''ios'' = Inr (advs ! 1)"
    and "advisory_factory sample_env ([JStr ''a'', JNull, JStr ''c''] ! 2) ''ios'' = Inr (advs ! 2)"
    using nth [rule_format, of 0] nth [rule_format, of 1] nth [rule_format, of 2] by simp_all
  then have "advs ! 0 = (JStr ''a'', ''ios'')" and "advs ! 1 = (JNull, ''ios'')"
    and "advs ! 2 = (JStr ''c'', ''ios'')"
    by (simp_all add: sample_env_def)
  with len have "advs = [(JStr ''a'', ''ios''), (JNull, ''ios''), (JStr ''c'', ''ios'')]"
    by (simp add: list_eq_iff_nth_eq less_Suc_eq numeral_3_eq_3 numeral_2_eq_2)
  with run h1 show ?thesis by simp
qed

section \<open>Lookup of a single advisory\<close>

text \<open>
  Both directions of the behaviour of \<^verbatim>\<open>get_by_advisory\<close>: a call that returns has
  returned one advisory, and whenever the request returns a decoded response (of any
  shape) from which the factory builds an object, the call returns the list holding
  just that object.
\<close>

lemma get_by_advisory_returns_one:
  assumes "get_by_advisory env self fmt an_advisory flt sent = (Inr advs, sent')"
  shows "length advs = 1
         \<and> (\<exists>tok j a. ensure_adv_format_token (ADV_TOKENS env) fmt = Inr tok
               \<and> get_request env self (tok @ ''/advisory/'' @ an_advisory) None sent = (Inr j, sent')
               \<and> advisory_factory env j tok = Inr a
               \<and> advs = [a])"
proof -
  obtain tok where tok: "ensure_adv_format_token (ADV_TOKENS env) fmt = Inr tok"
    using assms by (cases "ensure_adv_format_token (ADV_TOKENS env) fmt")
      (auto simp: get_by_advisory_def)
  obtain res s where req: "get_request env self (tok @ ''/advisory/'' @ an_advisory) None sent = (res, s)"
    by (cases "get_request env self (tok @ ''/advisory/'' @ an_advisory) None sent")
  obtain j where j: "res = Inr j" and s: "s = sent'"
    using assms tok req by (cases res) (auto simp: get_by_advisory_def)
  have "advisories_of env (Inr (JObj [(''advisories'', JArr [j])])) fmt = Inr advs"
    using assms tok req j by (simp add: get_by_advisory_def)
  then have "comprehension (\<lambda>adv. advisory_factory env adv tok) [j] = Inr advs"
    by (simp add: advisories_of_def py_getitem_def advisory_list_def tok py_iter_def)
  then obtain a where "advisory_factory env j tok = Inr a" and "advs = [a]"
    by (auto split: sum.splits)
  with tok req j s show ?thesis by auto
qed

lemma get_by_advisory_wraps_response:
  assumes tok: "ensure_adv_format_token (ADV_TOKENS env) fmt = Inr tok"
    and req: "get_request env self (tok @ ''/advisory/'' @ an_advisory) None sent = (Inr j, s')"
    and built: "advisory_factory env j tok = Inr a"
  shows "get_by_advisory env self fmt an_advisory flt sent = (Inr [a], s')"
  using tok req built
  by (simp add: get_by_advisory_def advisories_of_def py_getitem_def advisory_list_def py_iter_def)

text \<open>
  C4. For every advisory id and format, a call of \<^verbatim>\<open>get_by_advisory\<close> that returns has
  returned a list of exactly one advisory, the object the factory builds from the whole
  decoded response and the normalised format token; and the call does return that
  one-element list for every decoded response the factory accepts, whether the response
  is a dictionary, a list or anything else.
\<close>

theorem get_by_advisory_single:
  "(get_by_advisory env self fmt an_advisory flt sent = (Inr advs, sent') \<longrightarrow>
      length advs = 1
      \<and> (\<exists>tok j a. ensure_adv_format_token (ADV_TOKENS env) fmt = Inr tok
            \<and> get_request env self (tok @ ''/advisory/'' @ an_advisory) None sent = (Inr j, sent')
            \<and> advisory_factory env j tok = Inr a
            \<and> advs = [a]))
   \<and> (ensure_adv_format_token (ADV_TOKENS env) fmt = Inr tok \<longrightarrow>
      get_request env self (tok @ ''/advisory/'' @ an_advisory) None sent = (Inr j, s') \<longrightarrow>
      advisory_factory env j tok = Inr a \<longrightarrow>
      get_by_advisory env self fmt an_advisory flt sent = (Inr [a], s'))"
  using get_by_advisory_returns_one [of env self fmt an_advisory flt sent advs sent']
    get_by_advisory_wraps_response [of env fmt tok self an_advisory sent j s' a flt]
  by blast

theorem get_by_advisory_single_witness:
  "ensure_adv_format_token (ADV_TOKENS sample_list_env) (PStr ''cvrf'') = Inr ''cvrf''
   \<and> get_request sample_list_env sample_client ''cvrf/advisory/cisco-sa-1'' None [] =
       (Inr (JArr [JObj [(''advisoryId'', JStr ''cisco-sa-1'')],
                   JObj [(''advisoryId'', JStr ''cisco-sa-2'')]]),
        [\<lparr>req_url = ''https://api.example.com/security/advisories/cvrf/advisory/cisco-sa-1'',
          req_headers = [''Authorization'' \<mapsto> ''Bearer t0k3n''], req_params = None\<rparr>])
   \<and> get_by_advisory sample_list_env sample_client (PStr ''cvrf'') ''cisco-sa-1'' None [] =
       (Inr [(JArr [JObj [(''advisoryId'', JStr ''cisco-sa-1'')],
                    JObj [(''advisoryId'', JStr ''cisco-sa-2'')]], ''cvrf'')],
        [\<lparr>req_url = ''https://api.example.com/security/advisories/cvrf/advisory/cisco-sa-1'',
          req_headers = [''Authorization'' \<mapsto> ''Bearer t0k3n''], req_params = None\<rparr>])
   \<and> length [(JArr [JObj [(''advisoryId'', JStr ''cisco-sa-1'')],
                     JObj [(''advisoryId'', JStr ''cisco-sa-2'')]], ''cvrf'')] = 1
   \<and> get_by_advisory sample_env sample_client (PStr ''cvrf'') ''cisco-sa-1'' None [] =
       (Inr [(sample_response_json, ''cvrf'')],
        [\<lparr>req_url = ''https://api.example.com/security/advisories/cvrf/advisory/cisco-sa-1'',
          req_headers = [''Authorization'' \<mapsto> ''Bearer t0k3n''], req_params = None\<rparr>])"
proof -
  let ?req = "\<lparr>req_url = ''https://api.example.com/security/advisories/cvrf/advisory/cisco-sa-1'',
          req_headers = [''Authorization'' \<mapsto> ''Bearer t0k3n''], req_params = None\<rparr>"
  have tok: "ensure_adv_format_token (ADV_TOKENS sample_list_env) (PStr ''cvrf'') = Inr ''cvrf''"
    by (simp add: sample_list_env_def sample_env_def ensure_adv_format_token_def)
  have req: "get_request sample_list_env sample_client (''cvrf'' @ ''/advisory/'' @ ''cisco-sa-1'')
               None [] = (Inr sample_list_json, [?req])"
    by (simp add: get_request_def sample_list_env_def sample_env_def sample_client_def)
  have built: "advisory_factory sample_list_env sample_list_json ''cvrf'' =
                 Inr (sample_list_json, ''cvrf'')"
    by (simp add: sample_list_env_def sample_env_def)
  have run: "get_by_advisory sample_list_env sample_client (PStr ''cvrf'') ''cisco-sa-1'' None [] =
               (Inr [(sample_list_json, ''cvrf'')], [?req])"
    using get_by_advisory_single [of sample_list_env sample_client "PStr ''cvrf''" "''cisco-sa-1''"
        None "[]" "[(sample_list_json, ''cvrf'')]" "[?req]" "''cvrf''" sample_list_json "[?req]"
        "(sample_list_json, ''cvrf'')"] tok req built
    by blast
  have one: "length [(sample_list_json, ''cvrf'')] = 1"
    using get_by_advisory_single [of sample_list_env sample_client "PStr ''cvrf''" "''cisco-sa-1''"
        None "[]" "[(sample_list_json, ''cvrf'')]" "[?req]" "''cvrf''" sample_list_json "[?req]"
        "(sample_list_json, ''cvrf'')"] run
    by blast
  have tok': "ensure_adv_format_token (ADV_TOKENS sample_env) (PStr ''cvrf'') = Inr ''cvrf''"
    by (simp add: sample_env_def ensure_adv_format_token_def)
  have req': "get_request sample_env sample_client (''cvrf'' @ ''/advisory/'' @ ''cisco-sa-1'')
               None [] = (Inr sample_response_json, [?req])"
    by (simp add: get_request_def sample_env_def sample_client_def)
  have built': "advisory_factory sample_env sample_response_json ''cvrf'' =
                 Inr (sample_response_json, ''cvrf'')"
    by (simp add: sample_env_def)
  have run': "get_by_advisory sample_env sample_client (PStr ''cvrf'') ''cisco-sa-1'' None [] =
               (Inr [(sample_response_json, ''cvrf'')], [?req])"
    using get_by_advisory_single [of sample_env sample_client "PStr ''cvrf''" "''cisco-sa-1''"
        None "[]" "[(sample_response_json, ''cvrf'')]" "[?req]" "''cvrf''" sample_response_json
        "[?req]" "(sample_response_json, ''cvrf'')"] tok' req' built'
    by blast
  from req have req_lit: "get_request sample_list_env sample_client ''cvrf/advisory/cisco-sa-1''
               None [] = (Inr sample_list_json, [?req])"
    by simp
  show ?thesis
    using tok req_lit run one run' by (simp add: sample_list_json_def)
qed

section \<open>The platform handlers\<close>

lemma reraise_http_HTTPError:
  "reraise_http (Inl (HTTPError args (Some r))) =
     Inl (HTTPError [PInt (status_code r), PStr (resp_text r)] None)"
  by (simp add: reraise_http_def)

lemma reraise_http_Inr_iff: "reraise_http outcome = Inr x \<longleftrightarrow> outcome = Inr x"
  by (auto simp: reraise_http_def split: sum.splits exn.splits option.splits)

lemma advisories_of_Inl: "advisories_of env (Inl e) fmt = Inl e"
  by (simp add: advisories_of_def)

lemma get_by_ios_unfold:
  "get_by_ios env self fmt v flt sent =
     (reraise_http (advisories_of env
        (fst (get_request env self ''ios'' (Some [''version'' \<mapsto> v]) sent)) PNone),
      snd (get_request env self ''ios'' (Some [''version'' \<mapsto> v]) sent))"
  by (simp add: get_by_ios_def Let_def case_prod_beta)

lemma get_by_ios_xe_unfold:
  "get_by_ios_xe env self fmt v flt sent =
     (reraise_http (advisories_of env
        (fst (get_request env self ''iosxe'' (Some [''version'' \<mapsto> v]) sent)) PNone),
      snd (get_request env self ''iosxe'' (Some [''version'' \<mapsto> v]) sent))"
  by (simp add: get_by_ios_xe_def Let_def case_prod_beta)

lemma advisories_of_ios_Inr:
  assumes "advisories_of env res PNone = Inr advs"
  shows "\<exists>j raw xs. res = Inr j \<and> py_getitem j ''advisories'' = Inr raw \<and> py_iter raw = Inr xs
           \<and> ADV_TOKENS env \<noteq> []
           \<and> comprehension (\<lambda>adv. advisory_factory env adv (last (ADV_TOKENS env))) xs = Inr advs"
  using assms
  by (auto simp: advisories_of_def advisory_list_def ensure_adv_format_token_None py_last_def
      split: sum.splits if_splits)

lemma sample_get_request_404:
  "fst (get_request sample_env sample_client p (Some [''version'' \<mapsto> ''0.0'']) []) =
     Inl (HTTPError [PStr ''Client Error''] (Some \<lparr>status_code = 404, resp_text = ''Not Found''\<rparr>))"
  by (simp add: get_request_def sample_env_def)

lemma sample_get_request_200:
  "fst (get_request sample_env sample_client p (Some [''version'' \<mapsto> ''15.1'']) []) =
     Inr sample_response_json"
  by (simp add: get_request_def sample_env_def)

lemma sample_advisories_of:
  "advisories_of sample_env (Inr sample_response_json) PNone =
     Inr [(JObj [(''advisoryId'', JStr ''cisco-sa-1'')], ''ios''),
          (JObj [(''advisoryId'', JStr ''cisco-sa-2'')], ''ios'')]"
  by (simp add: advisories_of_def sample_response_json_def py_getitem_def advisory_list_def
      ensure_adv_format_token_def py_last_def py_iter_def sample_env_def)

text \<open>
  C3. Whenever the GET request of \<^verbatim>\<open>get_by_ios\<close> or \<^verbatim>\<open>get_by_ios_xe\<close> raises an
  \<^verbatim>\<open>HTTPError\<close> carrying a response, the handler raises a new \<^verbatim>\<open>HTTPError\<close> whose
  arguments are the status code and the body text of that response; it is not the error
  that was caught.
\<close>

theorem ios_handlers_reraise_http_error:
  "(fst (get_request env self ''ios'' (Some [''version'' \<mapsto> v]) sent) = Inl (HTTPError args (Some r))
      \<longrightarrow> fst (get_by_ios env self fmt v flt sent) =
            Inl (HTTPError [PInt (status_code r), PStr (resp_text r)] None)
          \<and> fst (get_by_ios env self fmt v flt sent) \<noteq> Inl (HTTPError args (Some r)))
   \<and> (fst (get_request env self ''iosxe'' (Some [''version'' \<mapsto> v]) sent) = Inl (HTTPError args (Some r))
      \<longrightarrow> fst (get_by_ios_xe env self fmt v flt sent) =
            Inl (HTTPError [PInt (status_code r), PStr (resp_text r)] None)
          \<and> fst (get_by_ios_xe env self fmt v flt sent) \<noteq> Inl (HTTPError args (Some r)))"
  by (simp add: get_by_ios_unfold get_by_ios_xe_unfold advisories_of_Inl reraise_http_HTTPError)

theorem ios_handlers_reraise_http_error_witness:
  "fst (get_request sample_env sample_client ''ios'' (Some [''version'' \<mapsto> ''0.0'']) []) =
     Inl (HTTPError [PStr ''Client Error''] (Some \<lparr>status_code = 404, resp_text = ''Not Found''\<rparr>))
   \<and> fst (get_by_ios sample_env sample_client (PStr ''cvrf'') ''0.0'' None []) =
       Inl (HTTPError [PInt 404, PStr ''Not Found''] None)
   \<and> fst (get_request sample_env sample_client ''iosxe'' (Some [''version'' \<mapsto> ''0.0'']) []) =
     Inl (HTTPError [PStr ''Client Error''] (Some \<lparr>status_code = 404, resp_text = ''Not Found''\<rparr>))
   \<and> fst (get_by_ios_xe sample_env sample_client (PStr ''cvrf'') ''0.0'' None []) =
       Inl (HTTPError [PInt 404, PStr ''Not Found''] None)"
  using ios_handlers_reraise_http_error [of sample_env sample_client "''0.0''" "[]"
      "[PStr ''Client Error'']" "\<lparr>status_code = 404, resp_text = ''Not Found''\<rparr>"
      "PStr ''cvrf''" None]
    sample_get_request_404 [of "''ios''"] sample_get_request_404 [of "''iosxe''"]
  by simp

text \<open>
  C7. \<^verbatim>\<open>get_by_ios\<close> and \<^verbatim>\<open>get_by_ios_xe\<close> ignore the format (and the filter) they are
  given: the request goes to the fixed path \<^verbatim>\<open>ios\<close> (\<^verbatim>\<open>iosxe\<close>) with the version as the
  only query parameter, and a returned list is the one the factory builds from the
  entries under \<^verbatim>\<open>advisories\<close> with the last format token.
\<close>

theorem ios_handlers_ignore_format:
  "get_by_ios env self fmt v flt sent = get_by_ios env self fmt' v flt' sent
   \<and> snd (get_by_ios env self fmt v flt sent) =
       sent @ [\<lparr>req_url = API_URL env @ ''/ios'', req_headers = headers self,
                req_params = Some [''version'' \<mapsto> v]\<rparr>]
   \<and> (fst (get_by_ios env self fmt v flt sent) = Inr advs \<longrightarrow>
        (\<exists>j raw xs. fst (get_request env self ''ios'' (Some [''version'' \<mapsto> v]) sent) = Inr j
           \<and> py_getitem j ''advisories'' = Inr raw \<and> py_iter raw = Inr xs
           \<and> ADV_TOKENS env \<noteq> []
           \<and> comprehension (\<lambda>adv. advisory_factory env adv (last (ADV_TOKENS env))) xs = Inr advs))
   \<and> get_by_ios_xe env self fmt v flt sent = get_by_ios_xe env self fmt' v flt' sent
   \<and> snd (get_by_ios_xe env self fmt v flt sent) =
       sent @ [\<lparr>req_url = API_URL env @ ''/iosxe'', req_headers = headers self,
                req_params = Some [''version'' \<mapsto> v]\<rparr>]
   \<and> (fst (get_by_ios_xe env self fmt v flt sent) = Inr advs' \<longrightarrow>
        (\<exists>j raw xs. fst (get_request env self ''iosxe'' (Some [''version'' \<mapsto> v]) sent) = Inr j
           \<and> py_getitem j ''advisories'' = Inr raw \<and> py_iter raw = Inr xs
           \<and> ADV_TOKENS env \<noteq> []
           \<and> comprehension (\<lambda>adv. advisory_factory env adv (last (ADV_TOKENS env))) xs = Inr advs'))"
proof -
  have a: "get_by_ios env self fmt v flt sent = get_by_ios env self fmt' v flt' sent"
    by (simp add: get_by_ios_def)
  have b: "snd (get_by_ios env self fmt v flt sent) =
       sent @ [\<lparr>req_url = API_URL env @ ''/ios'', req_headers = headers self,
                req_params = Some [''version'' \<mapsto> v]\<rparr>]"
    by (simp add: get_by_ios_unfold get_request_sent)
  have c: "fst (get_by_ios env self fmt v flt sent) = Inr advs \<longrightarrow>
        (\<exists>j raw xs. fst (get_request env self ''ios'' (Some [''version'' \<mapsto> v]) sent) = Inr j
           \<and> py_getitem j ''advisories'' = Inr raw \<and> py_iter raw = Inr xs
           \<and> ADV_TOKENS env \<noteq> []
           \<and> comprehension (\<lambda>adv. advisory_factory env adv (last (ADV_TOKENS env))) xs = Inr advs)"
    using advisories_of_ios_Inr [of env _ advs]
    by (simp add: get_by_ios_unfold reraise_http_Inr_iff)
  have a': "get_by_ios_xe env self fmt v flt sent = get_by_ios_xe env self fmt' v flt' sent"
    by (simp add: get_by_ios_xe_def)
  have b': "snd (get_by_ios_xe env self fmt v flt sent) =
       sent @ [\<lparr>req_url = API_URL env @ ''/iosxe'', req_headers = headers self,
                req_params = Some [''version'' \<mapsto> v]\<rparr>]"
    by (simp add: get_by_ios_xe_unfold get_request_sent)
  have c': "fst (get_by_ios_xe env self fmt v flt sent) = Inr advs' \<longrightarrow>
        (\<exists>j raw xs. fst (get_request env self ''iosxe'' (Some [''version'' \<mapsto> v]) sent) = Inr j
           \<and> py_getitem j ''advisories'' = Inr raw \<and> py_iter raw = Inr xs
           \<and> ADV_TOKENS env \<noteq> []
           \<and> comprehension (\<lambda>adv. advisory_factory env adv (last (ADV_TOKENS env))) xs = Inr advs')"
    using advisories_of_ios_Inr [of env _ advs']
    by (simp add: get_by_ios_xe_unfold reraise_http_Inr_iff)
  from a b c a' b' c' show ?thesis by (intro conjI)
qed

theorem ios_handlers_ignore_format_witness:
  "fst (get_by_ios sample_env sample_client (PStr ''cvrf'') ''15.1'' None []) =
     Inr [(JObj [(''advisoryId'', JStr ''cisco-sa-1'')], ''ios''),
          (JObj [(''advisoryId'', JStr ''cisco-sa-2'')], ''ios'')]
   \<and> fst (get_by_ios_xe sample_env sample_client (PStr ''cvrf'') ''15.1'' None []) =
     Inr [(JObj [(''advisoryId'', JStr ''cisco-sa-1'')], ''ios''),
          (JObj [(''advisoryId'', JStr ''cisco-sa-2'')], ''ios'')]
   \<and> map req_url (snd (get_by_ios sample_env sample_client (PStr ''cvrf'') ''15.1'' None [])) =
       [''https://api.example.com/security/advisories/ios'']
   \<and> map req_url (snd (get_by_ios_xe sample_env sample_client (PStr ''cvrf'') ''15.1'' None [])) =
       [''https://api.example.com/security/advisories/iosxe'']
   \<and> ADV_TOKENS sample_env \<noteq> []
   \<and> last (ADV_TOKENS sample_env) = ''ios''"
proof -
  have h: "fst (get_by_ios sample_env sample_client (PStr ''cvrf'') ''15.1'' None []) =
     Inr [(JObj [(''advisoryId'', JStr ''cisco-sa-1'')], ''ios''),
          (JObj [(''advisoryId'', JStr ''cisco-sa-2'')], ''ios'')]"
    by (simp add: get_by_ios_unfold sample_get_request_200 sample_advisories_of reraise_http_def)
  have h': "fst (get_by_ios_xe sample_env sample_client (PStr ''cvrf'') ''15.1'' None []) =
     Inr [(JObj [(''advisoryId'', JStr ''cisco-sa-1'')], ''ios''),
          (JObj [(''advisoryId'', JStr ''cisco-sa-2'')], ''ios'')]"
    by (simp add: get_by_ios_xe_unfold sample_get_request_200 sample_advisories_of reraise_http_def)
  have l: "last (ADV_TOKENS sample_env) = ''ios''" "API_URL sample_env = ''https://api.example.com/security/advisories''"
    by (simp_all add: sample_env_def)
  note T = ios_handlers_ignore_format [of sample_env sample_client "PStr ''cvrf''" "''15.1''" None "[]"
        "PStr ''oval''" None
        "[(JObj [(''advisoryId'', JStr ''cisco-sa-1'')], ''ios''),
          (JObj [(''advisoryId'', JStr ''cisco-sa-2'')], ''ios'')]"
        "[(JObj [(''advisoryId'', JStr ''cisco-sa-1'')], ''ios''),
          (JObj [(''advisoryId'', JStr ''cisco-sa-2'')], ''ios'')]"]
  from T have b: "snd (get_by_ios sample_env sample_client (PStr ''cvrf'') ''15.1'' None []) =
       [] @ [\<lparr>req_url = API_URL sample_env @ ''/ios'', req_headers = headers sample_client,
                req_params = Some [''version'' \<mapsto> ''15.1'']\<rparr>]"
    by (elim conjE)
  from T have b': "snd (get_by_ios_xe sample_env sample_client (PStr ''cvrf'') ''15.1'' None []) =
       [] @ [\<lparr>req_url = API_URL sample_env @ ''/iosxe'', req_headers = headers sample_client,
                req_params = Some [''version'' \<mapsto> ''15.1'']\<rparr>]"
    by (elim conjE)
  from T h have ne: "ADV_TOKENS sample_env \<noteq> []"
    by blast
  show ?thesis
    by (simp add: h h' b b' l ne)
qed

end
